theory Spec2Isabelle
  imports Main "HOL-Library.AList"
begin

section \<open>Data model\<close>

subsection \<open>Errors (policy.go 10-16, unsealer.go 17-24, 110-111)\<close>

text \<open>
  A Go \<open>error\<close> value is one of: an \<open>errors.New\<close> / \<open>fmt.Errorf\<close> value
  (\<open>ErrorString\<close>, identified by its text), a \<open>vaultError\<close> with its \<open>Code\<close> and
  \<open>Errors\<close> fields, a \<open>policyLoadError\<close> wrapping another error, or an error handed
  back by a library this program calls (HTTP transport, JSON decoding, the operating
  system), which the program never inspects and which is kept opaque here.
\<close>

datatype error =
    ErrorString string
  | vaultError (Code: int) (Errors: "string list")
  | policyLoadError (Err: error)
  | LibraryError string

definition errUnknownUserIdMethod :: error where
  "errUnknownUserIdMethod = ErrorString ''Unknown method specified for user id.''"

definition errUnknownHashMethod :: error where
  "errUnknownHashMethod = ErrorString ''Unknown hash method specified for user id.''"

subsection \<open>Policies (policy.go 18-36)\<close>

text \<open>
  \<open>Ttl\<close> and \<open>NumUses\<close> are Go \<open>int\<close>s that the program only stores and returns,
  never computes with, so they are plain integers here. A nil slice and a nil map are
  the empty list.
\<close>

record policy =
  Policies :: "string list"
  Meta :: "(string \<times> string) list"
  Ttl :: int
  NumUses :: int

text \<open>
  The store is a Go \<open>map[string]*policy\<close>. Its values are pointers, and a pointer can
  be nil: \<open>None\<close> is the nil pointer, \<open>Some pol\<close> a pointer to \<open>pol\<close>. No function of
  the program writes through such a pointer, so sharing is not observable and the
  pointee stands for the pointer.

  The map itself is an association list; \<open>map_of\<close> is the lookup \<open>v, ok := p[k]\<close>
  (\<open>ok\<close> is \<open>map_of p k \<noteq> None\<close>), \<open>AList.delete\<close> is \<open>delete(p, k)\<close>,
  \<open>AList.update\<close> is \<open>p[k] = v\<close>, and the order of the list is the order in which a
  \<open>range\<close> loop visits the entries. A Go map holds every key once:
  \<open>distinct (map fst p)\<close>.
\<close>

type_synonym policy_ptr = "policy option"

type_synonym policies = "(string \<times> policy_ptr) list"

definition defaultPolicy :: policy_ptr where
  "defaultPolicy = Some \<lparr>Policies = [], Meta = [], Ttl = 21600, NumUses = 0\<rparr>"

definition defaultPolicies :: policies where
  "defaultPolicies =
     [(''*'', Some \<lparr>Policies = [''default''], Meta = [], Ttl = 21600, NumUses = 0\<rparr>)]"

subsection \<open>Requests, responses and the outside world\<close>

text \<open>
  A \<open>goreq.Request\<close> with the fields this program sets. The only request body built
  by the functions below is the struct with the single field \<open>user_id\<close>.
\<close>

datatype requestBody = NoBody | UserIdBody string

record request =
  Uri :: string
  Method :: string
  Body :: requestBody
  Headers :: "(string \<times> string) list"
  MaxRedirects :: int
  RedirectHeaders :: bool

definition WithHeader :: "request \<Rightarrow> string \<Rightarrow> string \<Rightarrow> request" where
  "WithHeader req name v = req\<lparr>Headers := Headers req @ [(name, v)]\<rparr>"

record response =
  StatusCode :: int
  RespBody :: string

record vaultTokenResp =
  ClientToken :: string
  LeaseDuration :: int
  TTL :: int

text \<open>
  Everything the program calls but does not define is a parameter, collected in \<open>env\<close>:
  \<^item> \<open>vaultPath\<close> and \<open>config.Vault.GkPolicies\<close> (\<open>GkPolicies\<close>), declared elsewhere in
    the program, and \<open>path.Join\<close>;
  \<^item> \<open>Do\<close>: what \<open>goreq.Request.Do\<close> returns for a request, a transport error or a
    response; \<open>VaultRequestDo\<close>: the same for \<open>VaultRequest.Do\<close>;
  \<^item> \<open>InterfaceByName\<close>: \<open>net.InterfaceByName\<close> followed by \<open>HardwareAddr.String\<close>;
    \<open>ReadFile\<close>: \<open>ioutil.ReadFile\<close>;
  \<^item> \<open>md5\<close>, \<open>sha1\<close>, \<open>sha256\<close>: the digest of a byte string, that is \<open>New\<close>, one
    \<open>Write\<close> and \<open>Sum(nil)\<close>. By the contract of \<open>hash.Hash\<close>, \<open>Write\<close> never returns
    an error, so the branch of unsealer.go 153-155 is never taken and has no
    counterpart here;
  \<^item> \<open>FromJsonTo...\<close>: \<open>Body.FromJsonTo\<close> at each of the three target types. For a
    \<open>vaultError\<close> target the result is the \<open>Errors\<close> field after decoding (\<open>Code\<close> is
    tagged \<open>json:"-"\<close> and keeps the value assigned before).
  \<open>defer r.Body.Close()\<close> releases the connection and has no effect on any result.
\<close>

record env =
  vaultPath :: "string \<Rightarrow> string \<Rightarrow> string"
  pathJoin :: "string \<Rightarrow> string \<Rightarrow> string"
  GkPolicies :: string
  Do :: "request \<Rightarrow> error + response"
  VaultRequestDo :: "request \<Rightarrow> error + response"
  InterfaceByName :: "string \<Rightarrow> error + string"
  ReadFile :: "string \<Rightarrow> error + string"
  md5 :: "string \<Rightarrow> string"
  sha1 :: "string \<Rightarrow> string"
  sha256 :: "string \<Rightarrow> string"
  FromJsonToPolicies :: "string \<Rightarrow> error + policies"
  FromJsonToVaultError :: "string \<Rightarrow> error + string list"
  FromJsonToTokenResp :: "string \<Rightarrow> error + vaultTokenResp"

text \<open>
  The effects of the program on the outside: the requests on which it has called
  \<open>goreq.Request.Do\<close>, oldest first, and the lines it has written with \<open>log.Printf\<close>.
\<close>

record world =
  sent :: "request list"
  logged :: "string list"

definition doRequest :: "env \<Rightarrow> request \<Rightarrow> world \<Rightarrow> (error + response) \<times> world" where
  "doRequest e req w = (Do e req, w\<lparr>sent := sent w @ [req]\<rparr>)"

section \<open>Policy store: lookup (policy.go 38-46)\<close>

definition Get :: "policies \<Rightarrow> string \<Rightarrow> policy_ptr" where
  "Get p key =
     (case map_of p key of
        Some pol \<Rightarrow> pol
      | None \<Rightarrow>
          (case map_of p ''*'' of
             Some pol \<Rightarrow> pol
           | None \<Rightarrow> defaultPolicy))"

section \<open>Policy store: reload (policy.go 48-94)\<close>

text \<open>
  The two loops of the reload. \<open>for k, _ := range p { delete(p, k) }\<close> visits every
  key of \<open>p\<close> and deletes it; \<open>for k, v := range d { p[k] = v }\<close> visits every entry
  of \<open>d\<close> and assigns it. \<open>runSteps\<close> lists the contents of the store before the
  first iteration of a loop and after each iteration; the last of them is what the
  loop leaves.
\<close>

definition deleteEntry :: "policies \<Rightarrow> string \<Rightarrow> policies" where
  "deleteEntry p k = AList.delete k p"

definition assignEntry :: "policies \<Rightarrow> string \<times> policy_ptr \<Rightarrow> policies" where
  "assignEntry p kv = AList.update (fst kv) (snd kv) p"

definition deleteAll :: "policies \<Rightarrow> policies" where
  "deleteAll p = foldl deleteEntry p (map fst p)"

definition assignAll :: "policies \<Rightarrow> policies \<Rightarrow> policies" where
  "assignAll p d = foldl assignEntry p d"

fun runSteps :: "('s \<Rightarrow> 'a \<Rightarrow> 's) \<Rightarrow> 's \<Rightarrow> 'a list \<Rightarrow> 's list" where
  "runSteps f s [] = [s]"
| "runSteps f s (x # xs) = s # runSteps f (f s x) xs"

text \<open>
  The successive contents of the store while lines 62-67 (or 74-79) run on the store
  \<open>p\<close> with the new mapping \<open>d\<close>: the states of the delete loop, then those of the
  assignment loop.
\<close>

definition replaceStates :: "policies \<Rightarrow> policies \<Rightarrow> policies list" where
  "replaceStates p d =
     runSteps deleteEntry p (map fst p) @ tl (runSteps assignEntry (deleteAll p) d)"

definition loadRequest :: "env \<Rightarrow> string \<Rightarrow> request" where
  "loadRequest e authToken =
     WithHeader
       \<lparr>Uri = vaultPath e (pathJoin e ''/v1/secret'' (GkPolicies e)) '''',
        Method = '''', Body = NoBody, Headers = [],
        MaxRedirects = 10, RedirectHeaders = True\<rparr>
       ''X-Vault-Token'' authToken"

definition decodeErrorMessage :: string where
  "decodeErrorMessage =
     ''There was an error decoding policy from vault. This can occur when using '' @
     ''vault-cli to save the policy json, as vault-cli saves it as a string rather '' @
     ''than a json object.''"

definition noPolicyMessage :: "string \<Rightarrow> string" where
  "noPolicyMessage gk =
     ''There was no policy in the secret backend at '' @ gk @
     ''. Tokens created will have the default vault policy.''"

text \<open>
  \<open>Load\<close> takes the store (the receiver, a map, which it changes in place) and returns
  its error result, the store afterwards and the world afterwards. The receiver is a
  map other than \<open>defaultPolicies\<close>, as \<open>activePolicies\<close> is; \<open>defaultPolicies\<close> is
  only ever read.
\<close>

definition Load :: "env \<Rightarrow> policies \<Rightarrow> string \<Rightarrow> world \<Rightarrow> error option \<times> policies \<times> world" where
  "Load e p authToken w =
     (case VaultRequestDo e (loadRequest e authToken) of
        Inr r \<Rightarrow>
          (if StatusCode r = 200 then
             (case FromJsonToPolicies e (RespBody r) of
                Inr d \<Rightarrow> (None, assignAll (deleteAll p) d, w)
              | Inl _ \<Rightarrow> (Some (policyLoadError (ErrorString decodeErrorMessage)), p, w))
           else if StatusCode r = 404 then
             (None, assignAll (deleteAll p) defaultPolicies,
              w\<lparr>logged := logged w @ [noPolicyMessage (GkPolicies e)]\<rparr>)
           else
             (case FromJsonToVaultError e (RespBody r) of
                Inr errs \<Rightarrow> (Some (policyLoadError (vaultError (StatusCode r) errs)), p, w)
              | Inl _ \<Rightarrow>
                  (Some (policyLoadError (vaultError (StatusCode r) [''communication error.''])),
                   p, w)))
      | Inl err \<Rightarrow> (Some (policyLoadError err), p, w))"

section \<open>Unsealers (unsealer.go)\<close>

text \<open>
  A Go result \<open>(string, error)\<close> is a pair of the string and an optional error
  (\<open>None\<close> is the nil error).
\<close>

subsection \<open>Static token (unsealer.go 39-65)\<close>

record TokenUnsealer =
  AuthToken :: string

definition lookupSelfRequest :: "env \<Rightarrow> TokenUnsealer \<Rightarrow> request" where
  "lookupSelfRequest e t =
     WithHeader
       \<lparr>Uri = vaultPath e ''/v1/auth/token/lookup-self'' '''',
        Method = '''', Body = NoBody, Headers = [],
        MaxRedirects = 0, RedirectHeaders = False\<rparr>
       ''X-Vault-Token'' (AuthToken t)"

definition TokenUnsealer_Token ::
    "env \<Rightarrow> TokenUnsealer \<Rightarrow> world \<Rightarrow> (string \<times> error option) \<times> world" where
  "TokenUnsealer_Token e t w =
     (case doRequest e (lookupSelfRequest e t) w of
        (Inr r, w') \<Rightarrow>
          (if StatusCode r = 200 then ((AuthToken t, None), w')
           else
             (case FromJsonToVaultError e (RespBody r) of
                Inr errs \<Rightarrow> (('''', Some (vaultError (StatusCode r) errs)), w')
              | Inl _ \<Rightarrow>
                  (('''', Some (vaultError (StatusCode r) [''communication error.''])), w')))
      | (Inl err, w') \<Rightarrow> (('''', Some err), w'))"

subsection \<open>Generic login executor (unsealer.go 71-98)\<close>

definition genericUnsealer_Token ::
    "env \<Rightarrow> request \<Rightarrow> world \<Rightarrow> (string \<times> error option) \<times> world" where
  "genericUnsealer_Token e req w =
     (case doRequest e req w of
        (Inr r, w') \<Rightarrow>
          (if StatusCode r = 200 then
             (case FromJsonToTokenResp e (RespBody r) of
                Inr t \<Rightarrow> ((ClientToken t, None), w')
              | Inl err \<Rightarrow> (('''', Some err), w'))
           else
             (case FromJsonToVaultError e (RespBody r) of
                Inr errs \<Rightarrow> (('''', Some (vaultError (StatusCode r) errs)), w')
              | Inl _ \<Rightarrow>
                  (('''', Some (vaultError (StatusCode r) [''communication error.''])), w')))
      | (Inl err, w') \<Rightarrow> (('''', Some err), w'))"

subsection \<open>App-ID (unsealer.go 100-162)\<close>

record AppIdUnsealer =
  AppId :: string
  UserIdMethod :: string
  UserIdInterface :: string
  UserIdPath :: string
  UserIdHash :: string
  UserIdSalt :: string

text \<open>\<open>hex.EncodeToString\<close>: two lowercase hexadecimal digits for each byte.\<close>

definition hextable :: string where
  "hextable = ''0123456789abcdef''"

definition hexEncodeToString :: "string \<Rightarrow> string" where
  "hexEncodeToString src =
     concat (map (\<lambda>c. [hextable ! (of_char c div 16), hextable ! (of_char c mod 16)]) src)"

text \<open>Lines 117-132: the user id, or the error with which \<open>Token\<close> returns.\<close>

definition userId :: "env \<Rightarrow> AppIdUnsealer \<Rightarrow> error + string" where
  "userId e a =
     (if UserIdMethod a = ''mac'' then
        (case InterfaceByName e (UserIdInterface a) of
           Inr hw \<Rightarrow> Inr hw
         | Inl err \<Rightarrow> Inl err)
      else if UserIdMethod a = ''file'' then
        (case ReadFile e (UserIdPath a) of
           Inr b \<Rightarrow> Inr b
         | Inl err \<Rightarrow> Inl err)
      else Inl errUnknownUserIdMethod)"

text \<open>
  Lines 133-145: the hasher chosen by \<open>UserIdHash\<close>; \<open>Inr None\<close> is the nil hasher of
  the empty method.
\<close>

definition hasher :: "env \<Rightarrow> AppIdUnsealer \<Rightarrow> error + (string \<Rightarrow> string) option" where
  "hasher e a =
     (if UserIdHash a = ''md5'' then Inr (Some (md5 e))
      else if UserIdHash a = ''sha1'' then Inr (Some (sha1 e))
      else if UserIdHash a = ''sha256'' then Inr (Some (sha256 e))
      else if UserIdHash a = '''' then Inr None
      else Inl errUnknownHashMethod)"

text \<open>Lines 146-156: the user id that goes into the body.\<close>

definition hashedUserId :: "AppIdUnsealer \<Rightarrow> (string \<Rightarrow> string) option \<Rightarrow> string \<Rightarrow> string" where
  "hashedUserId a hs uid =
     (case hs of
        None \<Rightarrow> uid
      | Some digest \<Rightarrow>
          (let h = (if UserIdSalt a \<noteq> '''' then UserIdSalt a @ ''$'' @ uid else uid)
           in hexEncodeToString (digest h)))"

text \<open>Lines 157-161: the login request.\<close>

definition appIdLoginRequest :: "env \<Rightarrow> AppIdUnsealer \<Rightarrow> string \<Rightarrow> request" where
  "appIdLoginRequest e a uid =
     \<lparr>Uri = vaultPath e (''/v1/auth/app-id/login/'' @ AppId a) '''',
      Method = ''POST'', Body = UserIdBody uid, Headers = [],
      MaxRedirects = 0, RedirectHeaders = False\<rparr>"

definition AppIdUnsealer_Token ::
    "env \<Rightarrow> AppIdUnsealer \<Rightarrow> world \<Rightarrow> (string \<times> error option) \<times> world" where
  "AppIdUnsealer_Token e a w =
     (case userId e a of
        Inl err \<Rightarrow> (('''', Some err), w)
      | Inr uid \<Rightarrow>
          (case hasher e a of
             Inl err \<Rightarrow> (('''', Some err), w)
           | Inr hs \<Rightarrow>
               genericUnsealer_Token e (appIdLoginRequest e a (hashedUserId a hs uid)) w))"

section \<open>A concrete environment\<close>

text \<open>
  An environment on which the functions above can be run: the backend answers every
  request with \<open>reply\<close>, there is one network interface and one file, the decoders
  recognise the bodies listed, and the three digests are stand-ins that only mark
  their input (the theorems below hold for every digest function).
\<close>

definition examplePolicy :: policy where
  "examplePolicy = \<lparr>Policies = [''web''], Meta = [], Ttl = 3600, NumUses = 1\<rparr>"

definition exampleEnv :: "error + response \<Rightarrow> env" where
  "exampleEnv reply =
     \<lparr>vaultPath = (\<lambda>p q. ''http://vault:8200'' @ p),
      pathJoin = (\<lambda>a b. a @ ''/'' @ b),
      GkPolicies = ''gatekeeper'',
      Do = (\<lambda>req. reply),
      VaultRequestDo = (\<lambda>req. reply),
      InterfaceByName =
        (\<lambda>name. if name = ''eth0'' then Inr ''00:16:3e:00:00:01''
                else Inl (LibraryError ''no such network interface'')),
      ReadFile =
        (\<lambda>file. if file = ''/etc/uid'' then Inr ''u''
                else Inl (LibraryError ''no such file or directory'')),
      md5 = (\<lambda>b. ''m'' @ b),
      sha1 = (\<lambda>b. ''h'' @ b),
      sha256 = (\<lambda>b. ''H'' @ b),
      FromJsonToPolicies =
        (\<lambda>b. if b = ''policies'' then Inr [(''app'', Some examplePolicy)]
             else Inl (LibraryError ''invalid character'')),
      FromJsonToVaultError =
        (\<lambda>b. if b = ''errors'' then Inr [''permission denied'']
             else Inl (LibraryError ''invalid character'')),
      FromJsonToTokenResp =
        (\<lambda>b. if b = ''auth''
             then Inr \<lparr>ClientToken = ''issued'', LeaseDuration = 3600, TTL = 3600\<rparr>
             else Inl (LibraryError ''invalid character''))\<rparr>"

definition emptyWorld :: world where
  "emptyWorld = \<lparr>sent = [], logged = []\<rparr>"

definition exampleAppId :: "string \<Rightarrow> string \<Rightarrow> AppIdUnsealer" where
  "exampleAppId h s =
     \<lparr>AppId = ''gatekeeper'', UserIdMethod = ''file'', UserIdInterface = '''',
      UserIdPath = ''/etc/uid'', UserIdHash = h, UserIdSalt = s\<rparr>"

definition loginOk :: env where
  "loginOk = exampleEnv (Inr \<lparr>StatusCode = 200, RespBody = ''auth''\<rparr>)"

section \<open>Properties of the lookup\<close>

text \<open>
  C1 (as stated): \<open>Get\<close> never returns an absent value, for every key and every store
  state. This fails on a store that holds a nil pointer under the key: the key is
  present, so the nil pointer stored there is what \<open>Get\<close> returns.
\<close>

theorem Get_nil_entry_counterexample:
  "Get [(''app'', None)] ''app'' = None"
  by (simp add: Get_def)

text \<open>
  C1 (amended): for every key \<open>k\<close> and every store state, \<open>Get\<close> returns the pointer
  stored under \<open>k\<close> when \<open>k\<close> is present; otherwise the pointer stored under \<open>*\<close> when
  that is present; otherwise the process-wide default policy, which is a non-nil pointer
  to a policy with ttl 21600 and an empty policy list. \<open>Get\<close> is total, and its result
  is not nil whenever no entry of the store is a nil pointer.
\<close>

theorem Get_priority_order:
  "(case map_of p k of
      Some pol \<Rightarrow> Get p k = pol
    | None \<Rightarrow>
        (case map_of p ''*'' of
           Some pol \<Rightarrow> Get p k = pol
         | None \<Rightarrow> Get p k = defaultPolicy))
   \<and> (\<exists>d. defaultPolicy = Some d \<and> Ttl d = 21600 \<and> Policies d = [])
   \<and> (None \<notin> snd ` set p \<longrightarrow> Get p k \<noteq> None)"
proof (intro conjI)
  show "case map_of p k of
          Some pol \<Rightarrow> Get p k = pol
        | None \<Rightarrow>
            (case map_of p ''*'' of
               Some pol \<Rightarrow> Get p k = pol
             | None \<Rightarrow> Get p k = defaultPolicy)"
    by (simp add: Get_def split: option.splits)
  show "\<exists>d. defaultPolicy = Some d \<and> Ttl d = 21600 \<and> Policies d = []"
    by (simp add: defaultPolicy_def)
  show "None \<notin> snd ` set p \<longrightarrow> Get p k \<noteq> None"
  proof
    assume nonil: "None \<notin> snd ` set p"
    have stored: "map_of p x = Some v \<Longrightarrow> v \<noteq> None" for x v
    proof -
      assume "map_of p x = Some v"
      then have "(x, v) \<in> set p" by (rule map_of_SomeD)
      then have "v \<in> snd ` set p" by force
      show "v \<noteq> None"
      proof
        assume "v = None"
        with \<open>v \<in> snd ` set p\<close> nonil show False by simp
      qed
    qed
    show "Get p k \<noteq> None"
      by (auto simp: Get_def defaultPolicy_def split: option.splits dest: stored)
  qed
qed

theorem Get_priority_order_witness:
  "None \<notin> snd ` set defaultPolicies
   \<and> Get defaultPolicies ''app'' =
       Some \<lparr>Policies = [''default''], Meta = [], Ttl = 21600, NumUses = 0\<rparr>
   \<and> Get defaultPolicies ''app'' \<noteq> None"
  using Get_priority_order [of defaultPolicies "''app''"]
  by (simp add: defaultPolicies_def)

section \<open>Properties of the reload\<close>

subsection \<open>The two loops\<close>

lemma update_absent_appends:
  "k \<notin> fst ` set p \<Longrightarrow> AList.update k v p = p @ [(k, v)]"
  by (induction p) auto

lemma foldl_deleteEntry_empties:
  "fst ` set p \<subseteq> set ks \<Longrightarrow> foldl deleteEntry p ks = []"
proof (induction ks arbitrary: p)
  case Nil
  then show ?case by simp
next
  case (Cons k ks)
  have "fst ` set (deleteEntry p k) \<subseteq> set ks"
    using Cons.prems by (auto simp: deleteEntry_def AList.delete_eq)
  then show ?case using Cons.IH by simp
qed

lemma deleteAll_empties: "deleteAll p = []"
  by (simp add: deleteAll_def foldl_deleteEntry_empties)

lemma foldl_assignEntry_appends:
  "distinct (map fst (p @ d)) \<Longrightarrow> foldl assignEntry p d = p @ d"
proof (induction d arbitrary: p)
  case Nil
  then show ?case by simp
next
  case (Cons kv d)
  obtain k v where kv: "kv = (k, v)" by (cases kv)
  have absent: "k \<notin> fst ` set p" using Cons.prems kv by auto
  have step: "assignEntry p kv = p @ [kv]"
    using absent by (simp add: assignEntry_def kv update_absent_appends)
  have "distinct (map fst ((p @ [kv]) @ d))" using Cons.prems by simp
  then have "foldl assignEntry (p @ [kv]) d = (p @ [kv]) @ d" by (rule Cons.IH)
  then show ?case by (simp add: step)
qed

lemma assignAll_into_empty: "distinct (map fst d) \<Longrightarrow> assignAll [] d = d"
  using foldl_assignEntry_appends [of "[]" d] by (simp add: assignAll_def)

lemma replace_store: "distinct (map fst d) \<Longrightarrow> assignAll (deleteAll p) d = d"
  by (simp add: deleteAll_empties assignAll_into_empty)

lemma distinct_defaultPolicies: "distinct (map fst defaultPolicies)"
  by (simp add: defaultPolicies_def)

subsection \<open>HTTP 200\<close>

text \<open>
  C2: for every store \<open>p\<close> before the reload and every mapping \<open>d\<close> decoded from a
  response with status 200, \<open>Load\<close> returns no error and the store afterwards holds
  exactly the entries of \<open>d\<close>: \<open>Get\<close> on it is \<open>Get\<close> on \<open>d\<close>, its keys are the keys of
  \<open>d\<close>, so no key of \<open>p\<close> is left unless \<open>d\<close> has it. (The hypothesis on \<open>d\<close> says
  that it represents a Go map: every key once.)
\<close>

theorem Load_200_store_is_decoded_mapping:
  assumes "VaultRequestDo e (loadRequest e authToken) = Inr r"
    and "StatusCode r = 200"
    and "FromJsonToPolicies e (RespBody r) = Inr d"
    and "distinct (map fst d)"
  shows "fst (Load e p authToken w) = None
       \<and> fst (snd (Load e p authToken w)) = d
       \<and> (\<forall>k. Get (fst (snd (Load e p authToken w))) k = Get d k)
       \<and> fst ` set (fst (snd (Load e p authToken w))) = fst ` set d"
proof -
  have "Load e p authToken w = (None, d, w)"
    using assms by (simp add: Load_def replace_store)
  then show ?thesis by simp
qed

theorem Load_200_store_is_decoded_mapping_witness:
  "VaultRequestDo (exampleEnv (Inr \<lparr>StatusCode = 200, RespBody = ''policies''\<rparr>))
     (loadRequest (exampleEnv (Inr \<lparr>StatusCode = 200, RespBody = ''policies''\<rparr>)) ''root'')
     = Inr \<lparr>StatusCode = 200, RespBody = ''policies''\<rparr>
   \<and> FromJsonToPolicies (exampleEnv (Inr \<lparr>StatusCode = 200, RespBody = ''policies''\<rparr>))
       ''policies'' = Inr [(''app'', Some examplePolicy)]
   \<and> distinct (map fst [(''app'', Some examplePolicy)])
   \<and> fst (snd (Load (exampleEnv (Inr \<lparr>StatusCode = 200, RespBody = ''policies''\<rparr>))
                  [(''old'', None), (''*'', defaultPolicy)] ''root'' emptyWorld))
       = [(''app'', Some examplePolicy)]
   \<and> Get (fst (snd (Load (exampleEnv (Inr \<lparr>StatusCode = 200, RespBody = ''policies''\<rparr>))
                  [(''old'', None), (''*'', defaultPolicy)] ''root'' emptyWorld))) ''old''
       = defaultPolicy"
proof -
  let ?r = "\<lparr>StatusCode = 200, RespBody = ''policies''\<rparr>"
  let ?e = "exampleEnv (Inr ?r)"
  let ?d = "[(''app'', Some examplePolicy)]"
  have h1: "VaultRequestDo ?e (loadRequest ?e ''root'') = Inr ?r"
    by (simp add: exampleEnv_def)
  have h2: "StatusCode ?r = 200" by simp
  have h3: "FromJsonToPolicies ?e (RespBody ?r) = Inr ?d"
    by (simp add: exampleEnv_def)
  have h4: "distinct (map fst ?d)" by simp
  have g: "Get ?d ''old'' = defaultPolicy" by (simp add: Get_def)
  show ?thesis
    using Load_200_store_is_decoded_mapping
            [OF h1 h2 h3 h4, of "[(''old'', None), (''*'', defaultPolicy)]" emptyWorld]
          h1 h3 g
    by simp
qed

subsection \<open>HTTP 404\<close>

text \<open>
  C4: for every store before the reload, when the response has status 404, \<open>Load\<close>
  returns no error and the store afterwards is the built-in default mapping, which has
  exactly one entry: \<open>*\<close> with the policy list \<open>[default]\<close> and ttl 21600. No entry
  of the store before survives.
\<close>

theorem Load_404_store_is_default_mapping:
  assumes "VaultRequestDo e (loadRequest e authToken) = Inr r"
    and "StatusCode r = 404"
  shows "fst (Load e p authToken w) = None
       \<and> fst (snd (Load e p authToken w)) = defaultPolicies
       \<and> fst (snd (Load e p authToken w)) =
           [(''*'', Some \<lparr>Policies = [''default''], Meta = [], Ttl = 21600, NumUses = 0\<rparr>)]"
proof -
  have "fst (snd (Load e p authToken w)) = defaultPolicies"
    using assms by (simp add: Load_def replace_store distinct_defaultPolicies)
  moreover have "fst (Load e p authToken w) = None"
    using assms by (simp add: Load_def)
  ultimately show ?thesis by (simp add: defaultPolicies_def)
qed

theorem Load_404_store_is_default_mapping_witness:
  "VaultRequestDo (exampleEnv (Inr \<lparr>StatusCode = 404, RespBody = ''''\<rparr>))
     (loadRequest (exampleEnv (Inr \<lparr>StatusCode = 404, RespBody = ''''\<rparr>)) ''root'')
     = Inr \<lparr>StatusCode = 404, RespBody = ''''\<rparr>
   \<and> fst (Load (exampleEnv (Inr \<lparr>StatusCode = 404, RespBody = ''''\<rparr>))
             [(''old'', Some examplePolicy), (''*'', None)] ''root'' emptyWorld) = None
   \<and> fst (snd (Load (exampleEnv (Inr \<lparr>StatusCode = 404, RespBody = ''''\<rparr>))
                  [(''old'', Some examplePolicy), (''*'', None)] ''root'' emptyWorld))
       = [(''*'', Some \<lparr>Policies = [''default''], Meta = [], Ttl = 21600, NumUses = 0\<rparr>)]"
proof -
  let ?r = "\<lparr>StatusCode = 404, RespBody = ''''\<rparr>"
  let ?e = "exampleEnv (Inr ?r)"
  have h1: "VaultRequestDo ?e (loadRequest ?e ''root'') = Inr ?r"
    by (simp add: exampleEnv_def)
  have h2: "StatusCode ?r = 404" by simp
  show ?thesis
    using Load_404_store_is_default_mapping
            [OF h1 h2, of "[(''old'', Some examplePolicy), (''*'', None)]" emptyWorld] h1
    by (simp add: defaultPolicies_def)
qed

subsection \<open>Any other status\<close>

text \<open>
  C3: for every response whose status is neither 200 nor 404, \<open>Load\<close> returns a
  \<open>policyLoadError\<close> wrapping a \<open>vaultError\<close> whose code is that status and whose
  messages are the \<open>errors\<close> list of the envelope when the body decodes, and the single
  message \<open>communication error.\<close> when it does not. The store is returned as it was.
\<close>

theorem Load_other_status_error_and_store:
  assumes "VaultRequestDo e (loadRequest e authToken) = Inr r"
    and "StatusCode r \<noteq> 200"
    and "StatusCode r \<noteq> 404"
  shows "fst (Load e p authToken w) =
           Some (policyLoadError (vaultError (StatusCode r)
             (case FromJsonToVaultError e (RespBody r) of
                Inr errs \<Rightarrow> errs
              | Inl _ \<Rightarrow> [''communication error.''])))
       \<and> fst (snd (Load e p authToken w)) = p"
  using assms by (simp add: Load_def split: sum.splits)

theorem Load_other_status_error_and_store_witness:
  "VaultRequestDo (exampleEnv (Inr \<lparr>StatusCode = 403, RespBody = ''errors''\<rparr>))
     (loadRequest (exampleEnv (Inr \<lparr>StatusCode = 403, RespBody = ''errors''\<rparr>)) ''root'')
     = Inr \<lparr>StatusCode = 403, RespBody = ''errors''\<rparr>
   \<and> fst (Load (exampleEnv (Inr \<lparr>StatusCode = 403, RespBody = ''errors''\<rparr>))
             [(''old'', Some examplePolicy)] ''root'' emptyWorld)
       = Some (policyLoadError (vaultError 403 [''permission denied'']))
   \<and> fst (snd (Load (exampleEnv (Inr \<lparr>StatusCode = 403, RespBody = ''errors''\<rparr>))
                  [(''old'', Some examplePolicy)] ''root'' emptyWorld))
       = [(''old'', Some examplePolicy)]"
proof -
  let ?r = "\<lparr>StatusCode = 403, RespBody = ''errors''\<rparr>"
  let ?e = "exampleEnv (Inr ?r)"
  have h1: "VaultRequestDo ?e (loadRequest ?e ''root'') = Inr ?r"
    by (simp add: exampleEnv_def)
  have h2: "StatusCode ?r \<noteq> 200" by simp
  have h3: "StatusCode ?r \<noteq> 404" by simp
  have d: "FromJsonToVaultError ?e ''errors'' = Inr [''permission denied'']"
    by (simp add: exampleEnv_def)
  show ?thesis
    using Load_other_status_error_and_store
            [OF h1 h2 h3, of "[(''old'', Some examplePolicy)]" emptyWorld] h1 d
    by simp
qed

section \<open>Properties of the unsealers\<close>

lemma doRequest_world: "snd (doRequest e req w) = w\<lparr>sent := sent w @ [req]\<rparr>"
  by (simp add: doRequest_def)

lemma genericUnsealer_Token_world:
  "snd (genericUnsealer_Token e req w) = w\<lparr>sent := sent w @ [req]\<rparr>"
  by (simp add: genericUnsealer_Token_def doRequest_def split: sum.splits)

subsection \<open>Static token\<close>

text \<open>
  C7: for every token \<open>t\<close>, when the self-lookup request gets a response, \<open>Token\<close>
  returns \<open>t\<close> itself and no error if the status is 200, and otherwise the empty string
  and a \<open>vaultError\<close> whose code is the status of the response and whose messages are
  the decoded \<open>errors\<close> list, or the single message \<open>communication error.\<close> when the
  body does not decode.
\<close>

theorem TokenUnsealer_Token_result:
  assumes "Do e (lookupSelfRequest e t) = Inr r"
  shows "fst (TokenUnsealer_Token e t w) =
           (if StatusCode r = 200 then (AuthToken t, None)
            else ('''', Some (vaultError (StatusCode r)
                   (case FromJsonToVaultError e (RespBody r) of
                      Inr errs \<Rightarrow> errs
                    | Inl _ \<Rightarrow> [''communication error.'']))))"
  using assms by (simp add: TokenUnsealer_Token_def doRequest_def split: sum.splits)

theorem TokenUnsealer_Token_result_witness:
  "Do (exampleEnv (Inr \<lparr>StatusCode = 200, RespBody = ''''\<rparr>))
      (lookupSelfRequest (exampleEnv (Inr \<lparr>StatusCode = 200, RespBody = ''''\<rparr>))
         \<lparr>AuthToken = ''s.token''\<rparr>)
     = Inr \<lparr>StatusCode = 200, RespBody = ''''\<rparr>
   \<and> fst (TokenUnsealer_Token (exampleEnv (Inr \<lparr>StatusCode = 200, RespBody = ''''\<rparr>))
             \<lparr>AuthToken = ''s.token''\<rparr> emptyWorld) = (''s.token'', None)
   \<and> Do (exampleEnv (Inr \<lparr>StatusCode = 403, RespBody = ''errors''\<rparr>))
      (lookupSelfRequest (exampleEnv (Inr \<lparr>StatusCode = 403, RespBody = ''errors''\<rparr>))
         \<lparr>AuthToken = ''s.token''\<rparr>)
     = Inr \<lparr>StatusCode = 403, RespBody = ''errors''\<rparr>
   \<and> fst (TokenUnsealer_Token (exampleEnv (Inr \<lparr>StatusCode = 403, RespBody = ''errors''\<rparr>))
             \<lparr>AuthToken = ''s.token''\<rparr> emptyWorld)
       = ('''', Some (vaultError 403 [''permission denied'']))"
proof -
  let ?ok = "\<lparr>StatusCode = 200, RespBody = ''''\<rparr>"
  let ?no = "\<lparr>StatusCode = 403, RespBody = ''errors''\<rparr>"
  let ?t = "\<lparr>AuthToken = ''s.token''\<rparr>"
  have h1: "Do (exampleEnv (Inr ?ok)) (lookupSelfRequest (exampleEnv (Inr ?ok)) ?t) = Inr ?ok"
    by (simp add: exampleEnv_def)
  have h2: "Do (exampleEnv (Inr ?no)) (lookupSelfRequest (exampleEnv (Inr ?no)) ?t) = Inr ?no"
    by (simp add: exampleEnv_def)
  have d: "FromJsonToVaultError (exampleEnv (Inr ?no)) ''errors'' = Inr [''permission denied'']"
    by (simp add: exampleEnv_def)
  show ?thesis
    using TokenUnsealer_Token_result [OF h1, of emptyWorld]
          TokenUnsealer_Token_result [OF h2, of emptyWorld] h1 h2 d
    by simp
qed

subsection \<open>Generic login executor\<close>

text \<open>
  C8: for every login request, the executor calls \<open>Do\<close> on it exactly once (the
  requests sent grow by this one request, whatever the outcome) and classifies the
  outcome: a transport error is returned as it is; on status 200 the result is the
  \<open>client_token\<close> of the decoded envelope, or the decoding error; on any other status
  it is a \<open>vaultError\<close> with that status and the decoded \<open>errors\<close> list, or the
  single message \<open>communication error.\<close> when the body does not decode.
\<close>

theorem genericUnsealer_Token_single_attempt:
  "sent (snd (genericUnsealer_Token e req w)) = sent w @ [req]
   \<and> length (sent (snd (genericUnsealer_Token e req w))) = length (sent w) + 1
   \<and> fst (genericUnsealer_Token e req w) =
       (case Do e req of
          Inl err \<Rightarrow> ('''', Some err)
        | Inr r \<Rightarrow>
            if StatusCode r = 200 then
              (case FromJsonToTokenResp e (RespBody r) of
                 Inr t \<Rightarrow> (ClientToken t, None)
               | Inl err \<Rightarrow> ('''', Some err))
            else ('''', Some (vaultError (StatusCode r)
                   (case FromJsonToVaultError e (RespBody r) of
                      Inr errs \<Rightarrow> errs
                    | Inl _ \<Rightarrow> [''communication error.'']))))"
proof (intro conjI)
  show "sent (snd (genericUnsealer_Token e req w)) = sent w @ [req]"
    by (simp add: genericUnsealer_Token_world)
  then show "length (sent (snd (genericUnsealer_Token e req w))) = length (sent w) + 1"
    by simp
  show "fst (genericUnsealer_Token e req w) =
       (case Do e req of
          Inl err \<Rightarrow> ('''', Some err)
        | Inr r \<Rightarrow>
            if StatusCode r = 200 then
              (case FromJsonToTokenResp e (RespBody r) of
                 Inr t \<Rightarrow> (ClientToken t, None)
               | Inl err \<Rightarrow> ('''', Some err))
            else ('''', Some (vaultError (StatusCode r)
                   (case FromJsonToVaultError e (RespBody r) of
                      Inr errs \<Rightarrow> errs
                    | Inl _ \<Rightarrow> [''communication error.'']))))"
    by (simp add: genericUnsealer_Token_def doRequest_def split: sum.splits)
qed

subsection \<open>App-ID\<close>

lemma AppIdUnsealer_Token_submit:
  assumes "userId e a = Inr u" and "hasher e a = Inr hs"
  shows "AppIdUnsealer_Token e a w =
           genericUnsealer_Token e (appIdLoginRequest e a (hashedUserId a hs u)) w"
  using assms by (simp add: AppIdUnsealer_Token_def)

lemma Body_appIdLoginRequest: "Body (appIdLoginRequest e a uid) = UserIdBody uid"
  by (simp add: appIdLoginRequest_def)

text \<open>
  C6: for every App-ID unsealer whose \<open>UserIdMethod\<close> is neither \<open>mac\<close> nor \<open>file\<close>,
  \<open>Token\<close> returns the error \<open>errUnknownUserIdMethod\<close> and leaves the world as it
  was: no request is built or sent.
\<close>

theorem AppIdUnsealer_Token_unknown_user_id_method:
  assumes "UserIdMethod a \<noteq> ''mac''" and "UserIdMethod a \<noteq> ''file''"
  shows "AppIdUnsealer_Token e a w = (('''', Some errUnknownUserIdMethod), w)
       \<and> sent (snd (AppIdUnsealer_Token e a w)) = sent w"
  using assms by (simp add: AppIdUnsealer_Token_def userId_def)

theorem AppIdUnsealer_Token_unknown_user_id_method_witness:
  "''MAC'' \<noteq> ''mac'' \<and> ''MAC'' \<noteq> ''file''
   \<and> AppIdUnsealer_Token (exampleEnv (Inr \<lparr>StatusCode = 200, RespBody = ''auth''\<rparr>))
        \<lparr>AppId = ''gatekeeper'', UserIdMethod = ''MAC'', UserIdInterface = ''eth0'',
         UserIdPath = '''', UserIdHash = '''', UserIdSalt = ''''\<rparr> emptyWorld
       = (('''', Some (ErrorString ''Unknown method specified for user id.'')), emptyWorld)"
  using AppIdUnsealer_Token_unknown_user_id_method
          [of "\<lparr>AppId = ''gatekeeper'', UserIdMethod = ''MAC'', UserIdInterface = ''eth0'',
                UserIdPath = '''', UserIdHash = '''', UserIdSalt = ''''\<rparr>"
              "exampleEnv (Inr \<lparr>StatusCode = 200, RespBody = ''auth''\<rparr>)" emptyWorld]
  by (simp add: errUnknownUserIdMethod_def)

text \<open>
  C5: for every derived user id \<open>u\<close> and every non-empty salt \<open>s\<close>, with hash method
  \<open>sha256\<close> the one request \<open>Token\<close> sends is the App-ID login request whose
  \<open>user_id\<close> is the lowercase hexadecimal encoding of the SHA-256 digest of
  \<open>s @ ''$'' @ u\<close>; likewise with the MD5 and SHA-1 digests for \<open>md5\<close> and \<open>sha1\<close>; and
  with a hash method that is none of these and not empty, \<open>Token\<close> returns
  \<open>errUnknownHashMethod\<close> and sends nothing.
\<close>

theorem AppIdUnsealer_Token_hashed_user_id:
  assumes "userId e a = Inr u" and "UserIdSalt a \<noteq> ''''"
  shows "(UserIdHash a = ''sha256'' \<longrightarrow>
            sent (snd (AppIdUnsealer_Token e a w)) =
              sent w @ [appIdLoginRequest e a
                          (hexEncodeToString (sha256 e (UserIdSalt a @ ''$'' @ u)))])
       \<and> (UserIdHash a = ''md5'' \<longrightarrow>
            sent (snd (AppIdUnsealer_Token e a w)) =
              sent w @ [appIdLoginRequest e a
                          (hexEncodeToString (md5 e (UserIdSalt a @ ''$'' @ u)))])
       \<and> (UserIdHash a = ''sha1'' \<longrightarrow>
            sent (snd (AppIdUnsealer_Token e a w)) =
              sent w @ [appIdLoginRequest e a
                          (hexEncodeToString (sha1 e (UserIdSalt a @ ''$'' @ u)))])
       \<and> (UserIdHash a \<notin> {''md5'', ''sha1'', ''sha256'', ''''} \<longrightarrow>
            AppIdUnsealer_Token e a w = (('''', Some errUnknownHashMethod), w))
       \<and> (\<forall>uid. Body (appIdLoginRequest e a uid) = UserIdBody uid)"
proof (intro conjI impI allI)
  assume "UserIdHash a = ''sha256''"
  then have "hasher e a = Inr (Some (sha256 e))" by (simp add: hasher_def)
  from AppIdUnsealer_Token_submit [OF assms(1) this]
  show "sent (snd (AppIdUnsealer_Token e a w)) =
          sent w @ [appIdLoginRequest e a
                      (hexEncodeToString (sha256 e (UserIdSalt a @ ''$'' @ u)))]"
    using assms(2) by (simp add: genericUnsealer_Token_world hashedUserId_def)
next
  assume "UserIdHash a = ''md5''"
  then have "hasher e a = Inr (Some (md5 e))" by (simp add: hasher_def)
  from AppIdUnsealer_Token_submit [OF assms(1) this]
  show "sent (snd (AppIdUnsealer_Token e a w)) =
          sent w @ [appIdLoginRequest e a
                      (hexEncodeToString (md5 e (UserIdSalt a @ ''$'' @ u)))]"
    using assms(2) by (simp add: genericUnsealer_Token_world hashedUserId_def)
next
  assume "UserIdHash a = ''sha1''"
  then have "hasher e a = Inr (Some (sha1 e))" by (simp add: hasher_def)
  from AppIdUnsealer_Token_submit [OF assms(1) this]
  show "sent (snd (AppIdUnsealer_Token e a w)) =
          sent w @ [appIdLoginRequest e a
                      (hexEncodeToString (sha1 e (UserIdSalt a @ ''$'' @ u)))]"
    using assms(2) by (simp add: genericUnsealer_Token_world hashedUserId_def)
next
  assume "UserIdHash a \<notin> {''md5'', ''sha1'', ''sha256'', ''''}"
  then have "hasher e a = Inl errUnknownHashMethod" by (simp add: hasher_def)
  then show "AppIdUnsealer_Token e a w = (('''', Some errUnknownHashMethod), w)"
    using assms(1) by (simp add: AppIdUnsealer_Token_def)
next
  fix uid
  show "Body (appIdLoginRequest e a uid) = UserIdBody uid"
    by (rule Body_appIdLoginRequest)
qed

theorem AppIdUnsealer_Token_hashed_user_id_witness:
  "userId loginOk (exampleAppId ''sha256'' ''s'') = Inr ''u''
   \<and> UserIdSalt (exampleAppId ''sha256'' ''s'') \<noteq> ''''
   \<and> map Body (sent (snd (AppIdUnsealer_Token loginOk (exampleAppId ''sha256'' ''s'') emptyWorld)))
       = [UserIdBody (hexEncodeToString (sha256 loginOk ''s$u''))]
   \<and> map Body (sent (snd (AppIdUnsealer_Token loginOk (exampleAppId ''md5'' ''s'') emptyWorld)))
       = [UserIdBody (hexEncodeToString (md5 loginOk ''s$u''))]
   \<and> map Body (sent (snd (AppIdUnsealer_Token loginOk (exampleAppId ''sha1'' ''s'') emptyWorld)))
       = [UserIdBody (hexEncodeToString (sha1 loginOk ''s$u''))]
   \<and> AppIdUnsealer_Token loginOk (exampleAppId ''sha512'' ''s'') emptyWorld
       = (('''', Some (ErrorString ''Unknown hash method specified for user id.'')), emptyWorld)"
proof -
  have u: "userId loginOk (exampleAppId h ''s'') = Inr ''u''" for h
    by (simp add: userId_def exampleAppId_def loginOk_def exampleEnv_def)
  have s: "UserIdSalt (exampleAppId h ''s'') \<noteq> ''''" for h
    by (simp add: exampleAppId_def)
  have f: "UserIdHash (exampleAppId h ''s'') = h" "UserIdSalt (exampleAppId h ''s'') = ''s''" for h
    by (simp_all add: exampleAppId_def)
  have e: "sent emptyWorld = []" by (simp add: emptyWorld_def)
  show ?thesis
    using AppIdUnsealer_Token_hashed_user_id [OF u s, of "''sha256''" emptyWorld]
          AppIdUnsealer_Token_hashed_user_id [OF u s, of "''md5''" emptyWorld]
          AppIdUnsealer_Token_hashed_user_id [OF u s, of "''sha1''" emptyWorld]
          AppIdUnsealer_Token_hashed_user_id [OF u s, of "''sha512''" emptyWorld]
          u [of "''sha256''"] s [of "''sha256''"]
    by (simp add: f e errUnknownHashMethod_def)
qed

text \<open>
  C10: for every App-ID unsealer whose \<open>UserIdHash\<close> is empty, the one request
  \<open>Token\<close> sends carries the user id exactly as derived, whatever \<open>UserIdSalt\<close> is:
  changing the salt does not change what \<open>Token\<close> does.
\<close>

theorem AppIdUnsealer_Token_no_hash_ignores_salt:
  assumes "userId e a = Inr u" and "UserIdHash a = ''''"
  shows "sent (snd (AppIdUnsealer_Token e a w)) = sent w @ [appIdLoginRequest e a u]
       \<and> Body (appIdLoginRequest e a u) = UserIdBody u
       \<and> AppIdUnsealer_Token e (a\<lparr>UserIdSalt := s\<rparr>) w = AppIdUnsealer_Token e a w"
proof (intro conjI)
  have h: "hasher e a = Inr None" using assms(2) by (simp add: hasher_def)
  have tok: "AppIdUnsealer_Token e a w = genericUnsealer_Token e (appIdLoginRequest e a u) w"
    using AppIdUnsealer_Token_submit [OF assms(1) h, of w] by (simp add: hashedUserId_def)
  show "sent (snd (AppIdUnsealer_Token e a w)) = sent w @ [appIdLoginRequest e a u]"
    by (simp add: tok genericUnsealer_Token_world)
  show "Body (appIdLoginRequest e a u) = UserIdBody u"
    by (rule Body_appIdLoginRequest)
  have "userId e (a\<lparr>UserIdSalt := s\<rparr>) = userId e a"
    by (simp add: userId_def)
  with assms(1) have u': "userId e (a\<lparr>UserIdSalt := s\<rparr>) = Inr u"
    by simp
  have h': "hasher e (a\<lparr>UserIdSalt := s\<rparr>) = Inr None"
    using assms(2) by (simp add: hasher_def)
  have "AppIdUnsealer_Token e (a\<lparr>UserIdSalt := s\<rparr>) w =
          genericUnsealer_Token e (appIdLoginRequest e (a\<lparr>UserIdSalt := s\<rparr>) u) w"
    using AppIdUnsealer_Token_submit [OF u' h', of w] by (simp add: hashedUserId_def)
  moreover have "appIdLoginRequest e (a\<lparr>UserIdSalt := s\<rparr>) u = appIdLoginRequest e a u"
    by (simp add: appIdLoginRequest_def)
  ultimately show "AppIdUnsealer_Token e (a\<lparr>UserIdSalt := s\<rparr>) w = AppIdUnsealer_Token e a w"
    by (simp add: tok)
qed

theorem AppIdUnsealer_Token_no_hash_ignores_salt_witness:
  "userId loginOk (exampleAppId '''' ''s'') = Inr ''u''
   \<and> UserIdHash (exampleAppId '''' ''s'') = ''''
   \<and> UserIdSalt (exampleAppId '''' ''s'') = ''s''
   \<and> map Body (sent (snd (AppIdUnsealer_Token loginOk (exampleAppId '''' ''s'') emptyWorld)))
       = [UserIdBody ''u'']"
proof -
  have u: "userId loginOk (exampleAppId '''' ''s'') = Inr ''u''"
    by (simp add: userId_def exampleAppId_def loginOk_def exampleEnv_def)
  have h: "UserIdHash (exampleAppId '''' ''s'') = ''''"
    by (simp add: exampleAppId_def)
  have e: "sent emptyWorld = []" by (simp add: emptyWorld_def)
  show ?thesis
    using AppIdUnsealer_Token_no_hash_ignores_salt [OF u h, of emptyWorld] u h
    by (simp add: e exampleAppId_def)
qed

section \<open>The reload as seen by a concurrent lookup\<close>

text \<open>
  \<open>Load\<close> takes no lock and \<open>Get\<close> takes none: nothing in policy.go orders the
  writes of lines 62-67 (or 74-79) against a lookup running on another goroutine.
  The most a lookup can be granted is that every single \<open>delete\<close> and assignment is
  atomic; it then reads one of the states \<open>replaceStates p d\<close>. (Go's memory model
  grants less: an unsynchronised map read during a map write is a data race.)
\<close>

lemma runSteps_not_Nil: "runSteps f s xs \<noteq> []"
  by (cases xs) simp_all

lemma hd_runSteps: "hd (runSteps f s xs) = s"
  by (cases xs) simp_all

lemma last_runSteps: "last (runSteps f s xs) = foldl f s xs"
  by (induction xs arbitrary: s) (simp_all add: runSteps_not_Nil)

lemma length_runSteps: "length (runSteps f s xs) = Suc (length xs)"
  by (induction xs arbitrary: s) simp_all

lemma nth_runSteps_end: "runSteps f s xs ! length xs = foldl f s xs"
  by (induction xs arbitrary: s) simp_all

lemma hd_replaceStates: "hd (replaceStates p d) = p"
  by (simp add: replaceStates_def runSteps_not_Nil hd_runSteps)

lemma last_replaceStates: "last (replaceStates p d) = assignAll (deleteAll p) d"
proof (cases d)
  case Nil
  then show ?thesis
    by (simp add: replaceStates_def last_runSteps deleteAll_def assignAll_def)
next
  case (Cons kv d')
  then have "tl (runSteps assignEntry (deleteAll p) d) =
               runSteps assignEntry (assignEntry (deleteAll p) kv) d'"
    by simp
  then show ?thesis
    by (simp add: replaceStates_def runSteps_not_Nil last_runSteps assignAll_def Cons)
qed

lemma nth_replaceStates_cleared: "replaceStates p d ! length p = []"
proof -
  have "length p < length (runSteps deleteEntry p (map fst p))"
    by (simp add: length_runSteps)
  then have "replaceStates p d ! length p = runSteps deleteEntry p (map fst p) ! length p"
    by (simp add: replaceStates_def nth_append)
  also have "\<dots> = foldl deleteEntry p (map fst p)"
    using nth_runSteps_end [of deleteEntry p "map fst p"] by simp
  also have "\<dots> = []"
    using deleteAll_empties [of p] by (simp add: deleteAll_def)
  finally show ?thesis .
qed

lemma Load_200_store_is_last_state:
  assumes "VaultRequestDo e (loadRequest e authToken) = Inr r"
    and "StatusCode r = 200"
    and "FromJsonToPolicies e (RespBody r) = Inr d"
  shows "fst (snd (Load e p authToken w)) = last (replaceStates p d)"
  using assms by (simp add: Load_def last_replaceStates)

lemma Load_404_store_is_last_state:
  assumes "VaultRequestDo e (loadRequest e authToken) = Inr r"
    and "StatusCode r = 404"
  shows "fst (snd (Load e p authToken w)) = last (replaceStates p defaultPolicies)"
  using assms by (simp add: Load_def last_replaceStates)

text \<open>
  C9 (as stated): no lookup interleaved with a reload observes an empty or partially
  populated store. This fails. Take the store \<open>defaultPolicies\<close> and a reload that
  decodes the mapping of \<open>app\<close> to \<open>examplePolicy\<close>. The store \<open>Load\<close> returns is the
  last of the states \<open>replaceStates\<close>; the second of them, reached when the delete loop
  ends, is empty, and \<open>Get\<close> for \<open>app\<close> there is the hardcoded default policy, which is
  neither what the old mapping gives for \<open>app\<close> nor what the new one gives.
\<close>

theorem Load_cleared_state_counterexample:
  "fst (snd (Load (exampleEnv (Inr \<lparr>StatusCode = 200, RespBody = ''policies''\<rparr>))
               defaultPolicies ''root'' emptyWorld))
     = last (replaceStates defaultPolicies [(''app'', Some examplePolicy)])
   \<and> replaceStates defaultPolicies [(''app'', Some examplePolicy)] ! 1 = []
   \<and> Get (replaceStates defaultPolicies [(''app'', Some examplePolicy)] ! 1) ''app''
       = defaultPolicy
   \<and> Get defaultPolicies ''app'' \<noteq> defaultPolicy
   \<and> Get [(''app'', Some examplePolicy)] ''app'' \<noteq> defaultPolicy"
  by (simp add: Load_def exampleEnv_def replaceStates_def deleteAll_def assignAll_def
      deleteEntry_def assignEntry_def Get_def defaultPolicy_def defaultPolicies_def
      examplePolicy_def)

text \<open>
  C9 (amended): \<open>Load\<close> holds no lock while it replaces the store. The store passes
  through the states \<open>replaceStates p d\<close>: the first is the old mapping, the last is the
  store \<open>Load\<close> leaves (the new mapping \<open>d\<close>), and the state at the end of the delete
  loop is the empty mapping. So a lookup that runs before the first write of \<open>Load\<close>
  sees the entirely-old mapping and one that runs after its last write sees the
  entirely-new mapping, while a lookup interleaved between them can find the store
  empty or partially populated.
\<close>

theorem replaceStates_old_empty_new:
  "hd (replaceStates p d) = p
   \<and> last (replaceStates p d) = assignAll (deleteAll p) d
   \<and> length p < length (replaceStates p d)
   \<and> replaceStates p d ! length p = []
   \<and> Get (replaceStates p d ! length p) k = defaultPolicy
   \<and> (distinct (map fst d) \<longrightarrow> last (replaceStates p d) = d)"
proof (intro conjI impI)
  show "hd (replaceStates p d) = p" by (rule hd_replaceStates)
  show "last (replaceStates p d) = assignAll (deleteAll p) d" by (rule last_replaceStates)
  show "length p < length (replaceStates p d)"
    by (simp add: replaceStates_def length_runSteps)
  show "replaceStates p d ! length p = []" by (rule nth_replaceStates_cleared)
  then show "Get (replaceStates p d ! length p) k = defaultPolicy"
    by (simp add: Get_def)
  assume "distinct (map fst d)"
  then show "last (replaceStates p d) = d"
    by (simp add: last_replaceStates replace_store)
qed

theorem replaceStates_old_empty_new_witness:
  "distinct (map fst [(''app'', Some examplePolicy), (''*'', None)])
   \<and> replaceStates [(''old'', None), (''*'', defaultPolicy)]
        [(''app'', Some examplePolicy), (''*'', None)]
       = [[(''old'', None), (''*'', defaultPolicy)],
          [(''*'', defaultPolicy)],
          [],
          [(''app'', Some examplePolicy)],
          [(''app'', Some examplePolicy), (''*'', None)]]
   \<and> last (replaceStates [(''old'', None), (''*'', defaultPolicy)]
             [(''app'', Some examplePolicy), (''*'', None)])
       = [(''app'', Some examplePolicy), (''*'', None)]"
proof -
  have h: "distinct (map fst [(''app'', Some examplePolicy), (''*'', None)])" by simp
  have t: "replaceStates [(''old'', None), (''*'', defaultPolicy)]
             [(''app'', Some examplePolicy), (''*'', None)]
           = [[(''old'', None), (''*'', defaultPolicy)],
              [(''*'', defaultPolicy)],
              [],
              [(''app'', Some examplePolicy)],
              [(''app'', Some examplePolicy), (''*'', None)]]"
    by (simp add: replaceStates_def deleteAll_def deleteEntry_def assignEntry_def)
  show ?thesis
    using replaceStates_old_empty_new
            [of "[(''old'', None), (''*'', defaultPolicy)]"
                "[(''app'', Some examplePolicy), (''*'', None)]" "''app''"]
          h t
    by simp
qed

end
